theory Spec2Isabelle
  imports Main
begin

section \<open>Values, exceptions and the environment of appveyor\_artifacts.py\<close>

text \<open>
  A decoded JSON reply is a Python value: \<open>None\<close>, a bool, a number, a str, a list or a
  dict. A dict is kept as an association list that \<open>map_of\<close> reads. Every value the
  program takes out of a reply (a build's version, a job's id and status, a file name)
  stays such a value: the source never converts one.
\<close>

datatype json =
    JNull
  | JBool bool
  | JNum int
  | JStr string
  | JArr "json list"
  | JObj "(string \<times> json) list"

text \<open>
  The source has one exception class of its own, \<open>HandledError\<close>, raised without a
  payload right after a \<open>log.error\<close> call. The logged message is what tells one failure
  from another, so the model's \<open>HandledError\<close> carries it: one constructor per
  \<open>log.error\<close> site, with the arguments of the call.
\<close>

datatype log_error =
    Timed_out_waiting_for_reply
  | HTTP_error int json
  | HTTP_unknown_error int string
  | Failed_to_parse_JSON string
  | Contradiction_job_dirs
  | Invalid_git_commit
  | Not_a_directory string
  | Invalid_no_job_dirs
  | Invalid_repo_owner
  | Pull_request_not_a_digit
  | Invalid_repo_name
  | Invalid_git_tag
  | Timeout_not_a_digit
  | Builds_key_missing
  | Build_key_missing
  | Jobs_key_missing
  | Job_name_not_found string
  | Timed_out_waiting_for_job_to_be_queued
  | AppVeyor_job_failed string string json
  | Timed_out_waiting_for_jobs_to_finish

text \<open>
  The other constructors are the exceptions of Python itself and of the requests library
  that the source lets through: nothing in \<open>main\<close> catches them.
\<close>

datatype exn =
    HandledError log_error
  | TypeError
  | KeyError string
  | AttributeError
  | IndexError
  | ValueError
  | RequestException

datatype interpreter = Python2 | Python3

record config =
  always_job_dirs :: bool
  commit :: string
  dir :: string
  job_name :: string
  no_job_dirs :: string
  owner :: string
  pull_request :: string
  repo :: string
  tag :: string
  timeout :: string
  verbose :: bool

text \<open>
  What \<open>requests.get\<close> gives back: it raises one of the three timeout exceptions, raises
  another exception of the library, or returns a response. Of a response the source reads
  \<open>ok\<close>, \<open>status_code\<close>, \<open>text\<close> and \<open>json()\<close>; \<open>resp_json\<close> is \<open>None\<close> when
  \<open>json()\<close> raises \<open>ValueError\<close>.
\<close>

record response =
  resp_ok :: bool
  status_code :: int
  resp_text :: string
  resp_json :: "json option"

datatype http_outcome = Timed_out | Failed | Response response

text \<open>
  The world outside the program. \<open>server n e\<close> is the outcome of a GET of endpoint \<open>e\<close>
  after \<open>n\<close> earlier requests; \<open>clock k\<close> is what \<open>time.time()\<close> reads after \<open>k\<close>
  events; \<open>isdir\<close> is \<open>os.path.isdir\<close>; \<open>str_of\<close> is Python's \<open>str\<close> on a value that is
  not a str (\<open>format\<close> uses it).
\<close>

record env =
  interpreter :: interpreter
  server :: "nat \<Rightarrow> string \<Rightarrow> http_outcome"
  clock :: "nat \<Rightarrow> int"
  isdir :: "string \<Rightarrow> bool"
  str_of :: "json \<Rightarrow> string"

text \<open>The effects of a run, in order: the endpoints queried and the sleeps.\<close>

datatype event = Query string | Sleep nat

type_synonym world = "event list"

fun is_query :: "event \<Rightarrow> bool" where
  "is_query (Query e) = True"
| "is_query (Sleep n) = False"

definition requests_made :: "world \<Rightarrow> nat" where
  "requests_made w = length (filter is_query w)"

definition SLEEP_FOR :: nat where
  "SLEEP_FOR = 5"

section \<open>Python's operations on decoded values\<close>

fun py_truthy :: "json \<Rightarrow> bool" where
  "py_truthy JNull = False"
| "py_truthy (JBool b) = b"
| "py_truthy (JNum n) = (n \<noteq> 0)"
| "py_truthy (JStr s) = (s \<noteq> [])"
| "py_truthy (JArr xs) = (xs \<noteq> [])"
| "py_truthy (JObj kvs) = (kvs \<noteq> [])"

text \<open>\<open>d.get(k)\<close>: \<open>None\<close> for a missing key; only a dict has the method.\<close>

fun py_get :: "json \<Rightarrow> string \<Rightarrow> exn + json" where
  "py_get (JObj kvs) k = (case map_of kvs k of None \<Rightarrow> Inr JNull | Some v \<Rightarrow> Inr v)"
| "py_get v k = Inl AttributeError"

text \<open>\<open>d[k]\<close> with a str key: \<open>KeyError\<close> on a dict without it, \<open>TypeError\<close> on the rest.\<close>

fun py_getitem :: "json \<Rightarrow> string \<Rightarrow> exn + json" where
  "py_getitem (JObj kvs) k = (case map_of kvs k of None \<Rightarrow> Inl (KeyError k) | Some v \<Rightarrow> Inr v)"
| "py_getitem v k = Inl TypeError"

definition is_substring :: "string \<Rightarrow> string \<Rightarrow> bool" where
  "is_substring k s = list_ex (\<lambda>i. take (length k) (drop i s) = k) [0..<Suc (length s)]"

text \<open>\<open>k in v\<close> for a str \<open>k\<close>: a key of a dict, an element of a list, a substring of a str.\<close>

fun py_contains :: "string \<Rightarrow> json \<Rightarrow> exn + bool" where
  "py_contains k (JObj kvs) = Inr (map_of kvs k \<noteq> None)"
| "py_contains k (JArr xs) = Inr (JStr k \<in> set xs)"
| "py_contains k (JStr s) = Inr (is_substring k s)"
| "py_contains k v = Inl TypeError"

text \<open>\<open>for x in v\<close>: the elements of a list, the keys of a dict, the characters of a str.\<close>

fun py_iter :: "json \<Rightarrow> exn + json list" where
  "py_iter (JArr xs) = Inr xs"
| "py_iter (JObj kvs) = Inr (map (\<lambda>kv. JStr (fst kv)) kvs)"
| "py_iter (JStr s) = Inr (map (\<lambda>c. JStr [c]) s)"
| "py_iter v = Inl TypeError"

text \<open>A list or a dict cannot be a member of a set.\<close>

fun hashable :: "json \<Rightarrow> bool" where
  "hashable (JArr xs) = False"
| "hashable (JObj kvs) = False"
| "hashable v = True"

text \<open>An argument of \<open>str.format\<close>.\<close>

definition format_arg :: "env \<Rightarrow> json \<Rightarrow> string" where
  "format_arg env v = (case v of JStr s \<Rightarrow> s | _ \<Rightarrow> str_of env v)"

text \<open>
  \<open>time.time() - start_time >= config['timeout']\<close> compares a float with a str, since
  the timeout stays the str that \<open>validate\<close> checked with \<open>isdigit\<close>. Python 3 raises
  \<open>TypeError\<close>; Python 2 orders a number below every str, so the answer is \<open>False\<close>.
\<close>

definition py_ge_float_str :: "interpreter \<Rightarrow> int \<Rightarrow> string \<Rightarrow> exn + bool" where
  "py_ge_float_str py elapsed budget = (case py of Python3 \<Rightarrow> Inl TypeError | Python2 \<Rightarrow> Inr False)"

section \<open>query\_api\<close>

text \<open>Lines 208 to 220: what \<open>query_api\<close> does with the outcome of the GET.\<close>

definition query_api_outcome :: "http_outcome \<Rightarrow> exn + json" where
  "query_api_outcome out =
     (case out of
        Timed_out \<Rightarrow> Inl (HandledError Timed_out_waiting_for_reply)
      | Failed \<Rightarrow> Inl RequestException
      | Response r \<Rightarrow>
          if \<not> resp_ok r then
            (case resp_json r of
               None \<Rightarrow> Inl ValueError
             | Some body \<Rightarrow>
                 (case py_get body ''message'' of
                    Inl e \<Rightarrow> Inl e
                  | Inr message \<Rightarrow>
                      if py_truthy message
                      then Inl (HandledError (HTTP_error (status_code r) message))
                      else Inl (HandledError (HTTP_unknown_error (status_code r) (resp_text r)))))
          else
            (case resp_json r of
               None \<Rightarrow> Inl (HandledError (Failed_to_parse_JSON (resp_text r)))
             | Some body \<Rightarrow> Inr body))"

definition query_api :: "env \<Rightarrow> string \<Rightarrow> world \<Rightarrow> (exn + json) \<times> world" where
  "query_api env endpoint w =
     (query_api_outcome (server env (requests_made w) endpoint), w @ [Query endpoint])"

section \<open>validate\<close>

definition newline :: char where
  "newline = CHR 0x0A"

text \<open>
  Both patterns end in \<open>$\<close>, which in Python also matches just before a newline that ends
  the string; \<open>match\<close> anchors the start.
\<close>

definition before_final_newline :: "string \<Rightarrow> string" where
  "before_final_newline s = (if s \<noteq> [] \<and> last s = newline then butlast s else s)"

definition hex_chars :: "char list" where
  "hex_chars = ''0123456789abcdef''"

definition general_chars :: "char list" where
  "general_chars = ''0123456789abcdefghijklmnopqrstuvwxyzABCDEFGHIJKLMNOPQRSTUVWXYZ._-''"

definition digit_chars :: "char list" where
  "digit_chars = ''0123456789''"

definition REGEX_COMMIT :: "string \<Rightarrow> bool" where
  "REGEX_COMMIT s =
     (let h = before_final_newline s
      in 7 \<le> length h \<and> length h \<le> 40 \<and> list_all (\<lambda>c. c \<in> set hex_chars) h)"

definition REGEX_GENERAL :: "string \<Rightarrow> bool" where
  "REGEX_GENERAL s =
     (let g = before_final_newline s
      in g \<noteq> [] \<and> list_all (\<lambda>c. c \<in> set general_chars) g)"

text \<open>
  \<open>str.isdigit\<close>: the string is not empty and every character is a digit. A \<open>char\<close> is
  a code point below 256. In Python 3 a str holds code points and a digit is any
  character of the Unicode categories Decimal and Digit: below 256 these are \<open>0\<close> to
  \<open>9\<close> and the superscripts two, three and one (U+00B2, U+00B3, U+00B9). In Python 2 the
  values of the configuration are byte strings and a digit is what the C library's
  \<open>isdigit\<close> answers in the C locale, \<open>0\<close> to \<open>9\<close>.
\<close>

definition superscript_digits :: "char list" where
  "superscript_digits = [CHR 0xB2, CHR 0xB3, CHR 0xB9]"

definition digit_char :: "interpreter \<Rightarrow> char \<Rightarrow> bool" where
  "digit_char py c =
     (c \<in> set digit_chars \<or> (py = Python3 \<and> c \<in> set superscript_digits))"

definition isdigit :: "interpreter \<Rightarrow> string \<Rightarrow> bool" where
  "isdigit py s = (s \<noteq> [] \<and> list_all (digit_char py) s)"

definition validate :: "env \<Rightarrow> config \<Rightarrow> exn + unit" where
  "validate env cfg =
     (if always_job_dirs cfg \<and> no_job_dirs cfg \<noteq> [] then
        Inl (HandledError Contradiction_job_dirs)
      else if commit cfg \<noteq> [] \<and> \<not> REGEX_COMMIT (commit cfg) then
        Inl (HandledError Invalid_git_commit)
      else if dir cfg \<noteq> [] \<and> \<not> isdir env (dir cfg) then
        Inl (HandledError (Not_a_directory (dir cfg)))
      else if no_job_dirs cfg \<notin> set ['''', ''rename'', ''overwrite'', ''skip''] then
        Inl (HandledError Invalid_no_job_dirs)
      else if owner cfg = [] \<or> \<not> REGEX_GENERAL (owner cfg) then
        Inl (HandledError Invalid_repo_owner)
      else if pull_request cfg \<noteq> [] \<and> \<not> isdigit (interpreter env) (pull_request cfg) then
        Inl (HandledError Pull_request_not_a_digit)
      else if repo cfg = [] \<or> \<not> REGEX_GENERAL (repo cfg) then
        Inl (HandledError Invalid_repo_name)
      else if tag cfg \<noteq> [] \<and> \<not> REGEX_GENERAL (tag cfg) then
        Inl (HandledError Invalid_git_tag)
      else if timeout cfg \<noteq> [] \<and> \<not> isdigit (interpreter env) (timeout cfg) then
        Inl (HandledError Timeout_not_a_digit)
      else Inr ())"

section \<open>get\_build\_version\<close>

definition history_url :: "config \<Rightarrow> string" where
  "history_url cfg = ''/projects/'' @ owner cfg @ ''/'' @ repo cfg @ ''/history?recordsNumber=10''"

text \<open>
  The three tests of lines 287 to 294 on one build, named after what the source logs.
  \<open>config['tag'] and ...\<close> short-circuits, so \<open>build.get\<close> is only called for an
  identity field that is not empty; \<open>build['commitId']\<close> is read when neither of the first
  two tests held.
\<close>

datatype match_kind = Tag_build | Pull_request_build | Branch_build

definition commit_test :: "config \<Rightarrow> json \<Rightarrow> exn + match_kind option" where
  "commit_test cfg build =
     (case py_getitem build ''commitId'' of
        Inl e \<Rightarrow> Inl e
      | Inr c \<Rightarrow> Inr (if c = JStr (commit cfg) then Some Branch_build else None))"

definition pull_request_test :: "config \<Rightarrow> json \<Rightarrow> exn + match_kind option" where
  "pull_request_test cfg build =
     (if pull_request cfg = [] then commit_test cfg build
      else
        (case py_get build ''pullRequestId'' of
           Inl e \<Rightarrow> Inl e
         | Inr p \<Rightarrow>
             if p = JStr (pull_request cfg) then Inr (Some Pull_request_build)
             else commit_test cfg build))"

definition build_test :: "config \<Rightarrow> json \<Rightarrow> exn + match_kind option" where
  "build_test cfg build =
     (if tag cfg = [] then pull_request_test cfg build
      else
        (case py_get build ''tag'' of
           Inl e \<Rightarrow> Inl e
         | Inr t \<Rightarrow>
             if t = JStr (tag cfg) then Inr (Some Tag_build)
             else pull_request_test cfg build))"

text \<open>The loop of lines 286 to 297: \<open>None\<close> when no build passes a test.\<close>

fun find_version :: "config \<Rightarrow> json list \<Rightarrow> exn + json" where
  "find_version cfg [] = Inr JNull"
| "find_version cfg (build # builds) =
     (case build_test cfg build of
        Inl e \<Rightarrow> Inl e
      | Inr None \<Rightarrow> find_version cfg builds
      | Inr (Some k) \<Rightarrow> py_getitem build ''version'')"

definition version_of_history :: "config \<Rightarrow> json \<Rightarrow> exn + json" where
  "version_of_history cfg json_data =
     (case py_contains ''builds'' json_data of
        Inl e \<Rightarrow> Inl e
      | Inr False \<Rightarrow> Inl (HandledError Builds_key_missing)
      | Inr True \<Rightarrow>
          (case py_getitem json_data ''builds'' of
             Inl e \<Rightarrow> Inl e
           | Inr builds \<Rightarrow>
               (case py_iter builds of
                  Inl e \<Rightarrow> Inl e
                | Inr bs \<Rightarrow> find_version cfg bs)))"

definition get_build_version :: "env \<Rightarrow> config \<Rightarrow> world \<Rightarrow> (exn + json) \<times> world" where
  "get_build_version env cfg w =
     (case query_api env (history_url cfg) w of
        (Inl e, w') \<Rightarrow> (Inl e, w')
      | (Inr json_data, w') \<Rightarrow> (version_of_history cfg json_data, w'))"

section \<open>get\_job\_ids\<close>

definition build_url :: "env \<Rightarrow> config \<Rightarrow> json \<Rightarrow> string" where
  "build_url env cfg build_version =
     ''/projects/'' @ owner cfg @ ''/'' @ repo cfg @ ''/build/'' @ format_arg env build_version"

text \<open>The tuple \<open>(job['jobId'], job['status'])\<close>.\<close>

definition job_pair :: "json \<Rightarrow> exn + json \<times> json" where
  "job_pair job =
     (case py_getitem job ''jobId'' of
        Inl e \<Rightarrow> Inl e
      | Inr i \<Rightarrow>
          (case py_getitem job ''status'' of
             Inl e \<Rightarrow> Inl e
           | Inr s \<Rightarrow> Inr (i, s)))"

text \<open>The loop of lines 328 to 336, with \<open>all_jobs\<close> as the accumulator.\<close>

fun collect_jobs :: "config \<Rightarrow> json list \<Rightarrow> (json \<times> json) list \<Rightarrow> exn + (json \<times> json) list" where
  "collect_jobs cfg [] all_jobs =
     (if job_name cfg \<noteq> [] then Inl (HandledError (Job_name_not_found (job_name cfg)))
      else Inr all_jobs)"
| "collect_jobs cfg (job # jobs) all_jobs =
     (if job_name cfg \<noteq> [] then
        (case py_getitem job ''name'' of
           Inl e \<Rightarrow> Inl e
         | Inr n \<Rightarrow>
             if n = JStr (job_name cfg) then
               (case job_pair job of Inl e \<Rightarrow> Inl e | Inr p \<Rightarrow> Inr [p])
             else
               (case job_pair job of
                  Inl e \<Rightarrow> Inl e
                | Inr p \<Rightarrow> collect_jobs cfg jobs (all_jobs @ [p])))
      else
        (case job_pair job of
           Inl e \<Rightarrow> Inl e
         | Inr p \<Rightarrow> collect_jobs cfg jobs (all_jobs @ [p])))"

definition jobs_of_build :: "config \<Rightarrow> json \<Rightarrow> exn + (json \<times> json) list" where
  "jobs_of_build cfg json_data =
     (case py_contains ''build'' json_data of
        Inl e \<Rightarrow> Inl e
      | Inr False \<Rightarrow> Inl (HandledError Build_key_missing)
      | Inr True \<Rightarrow>
          (case py_getitem json_data ''build'' of
             Inl e \<Rightarrow> Inl e
           | Inr build \<Rightarrow>
               (case py_contains ''jobs'' build of
                  Inl e \<Rightarrow> Inl e
                | Inr False \<Rightarrow> Inl (HandledError Jobs_key_missing)
                | Inr True \<Rightarrow>
                    (case py_getitem build ''jobs'' of
                       Inl e \<Rightarrow> Inl e
                     | Inr jobs \<Rightarrow>
                         (case py_iter jobs of
                            Inl e \<Rightarrow> Inl e
                          | Inr js \<Rightarrow> collect_jobs cfg js [])))))"

definition get_job_ids ::
  "env \<Rightarrow> json \<Rightarrow> config \<Rightarrow> world \<Rightarrow> (exn + (json \<times> json) list) \<times> world" where
  "get_job_ids env build_version cfg w =
     (case query_api env (build_url env cfg build_version) w of
        (Inl e, w') \<Rightarrow> (Inl e, w')
      | (Inr json_data, w') \<Rightarrow> (jobs_of_build cfg json_data, w'))"

section \<open>get\_artifacts\_urls\<close>

definition artifacts_url :: "env \<Rightarrow> json \<Rightarrow> string" where
  "artifacts_url env job = ''/buildjobs/'' @ format_arg env job @ ''/artifacts''"

text \<open>The inner loop of lines 353 to 355 over the entries of one job's listing.\<close>

fun artifact_rows :: "json \<Rightarrow> json list \<Rightarrow> exn + (json \<times> json) list" where
  "artifact_rows job [] = Inr []"
| "artifact_rows job (artifact # rest) =
     (case py_getitem artifact ''fileName'' of
        Inl e \<Rightarrow> Inl e
      | Inr file_name \<Rightarrow>
          (case artifact_rows job rest of
             Inl e \<Rightarrow> Inl e
           | Inr rows \<Rightarrow> Inr ((job, file_name) # rows)))"

text \<open>
  The \<open>log.debug\<close> call of line 351 has three placeholders and one argument. The logging
  module reports such a call on stderr and does not raise, so it is no branch here.
\<close>

text \<open>The outer loop of lines 349 to 356, with \<open>artifacts\<close> as the accumulator.\<close>

fun artifacts_loop ::
  "env \<Rightarrow> json list \<Rightarrow> (json \<times> json) list \<Rightarrow> world \<Rightarrow> (exn + (json \<times> json) list) \<times> world" where
  "artifacts_loop env [] artifacts w = (Inr artifacts, w)"
| "artifacts_loop env (job # jobs) artifacts w =
     (case query_api env (artifacts_url env job) w of
        (Inl e, w') \<Rightarrow> (Inl e, w')
      | (Inr json_data, w') \<Rightarrow>
          (case py_iter json_data of
             Inl e \<Rightarrow> (Inl e, w')
           | Inr entries \<Rightarrow>
               (case artifact_rows job entries of
                  Inl e \<Rightarrow> (Inl e, w')
                | Inr rows \<Rightarrow> artifacts_loop env jobs (artifacts @ rows) w')))"

definition get_artifacts_urls ::
  "env \<Rightarrow> json list \<Rightarrow> world \<Rightarrow> (exn + (json \<times> json) list) \<times> world" where
  "get_artifacts_urls env job_ids w = artifacts_loop env job_ids [] w"

section \<open>main\<close>

text \<open>
  The \<open>for _ in range(3)\<close> loop of lines 369 to 374, with the attempts left as the
  first argument and \<open>build_version\<close> as the third. It sleeps after every attempt that
  found nothing, the last one too.
\<close>

fun locate_build :: "nat \<Rightarrow> env \<Rightarrow> config \<Rightarrow> json \<Rightarrow> world \<Rightarrow> (exn + json) \<times> world" where
  "locate_build 0 env cfg build_version w = (Inr build_version, w)"
| "locate_build (Suc n) env cfg build_version w =
     (case get_build_version env cfg w of
        (Inl e, w') \<Rightarrow> (Inl e, w')
      | (Inr v, w') \<Rightarrow>
          if py_truthy v then (Inr v, w')
          else locate_build n env cfg v (w' @ [Sleep SLEEP_FOR]))"

text \<open>
  Lines 385 to 400 on one job listing: \<open>Inr True\<close> is the \<open>break\<close>, \<open>Inr False\<close> goes on
  to the timeout test. \<open>set(...)\<close> needs hashable statuses. The last branch evaluates
  \<open>statuses - valid_statuses\<close>, a set minus a list, as an argument of \<open>log.error\<close>: that
  raises \<open>TypeError\<close>, and the \<open>raise HandledError\<close> below it is never reached.
\<close>

definition check_statuses :: "config \<Rightarrow> (json \<times> json) list \<Rightarrow> exn + bool" where
  "check_statuses cfg job_ids =
     (if \<not> list_all hashable (map snd job_ids) then Inl TypeError
      else
        (let statuses = set (map snd job_ids) in
         if JStr ''failed'' \<in> statuses then
           (case filter (\<lambda>i. snd i = JStr ''failed'') job_ids of
              [] \<Rightarrow> Inl IndexError
            | i # _ \<Rightarrow> Inl (HandledError (AppVeyor_job_failed (owner cfg) (repo cfg) (fst i))))
         else if statuses = set [JStr ''success''] then Inr True
         else if JStr ''running'' \<in> statuses then Inr False
         else if JStr ''queued'' \<in> statuses then Inr False
         else Inl TypeError))"

text \<open>Lines 401 to 403.\<close>

definition check_timeout :: "env \<Rightarrow> config \<Rightarrow> int \<Rightarrow> world \<Rightarrow> exn + unit" where
  "check_timeout env cfg start_time w =
     (if timeout cfg = [] then Inr ()
      else
        (case py_ge_float_str (interpreter env) (clock env (length w) - start_time) (timeout cfg) of
           Inl e \<Rightarrow> Inl e
         | Inr True \<Rightarrow> Inl (HandledError Timed_out_waiting_for_jobs_to_finish)
         | Inr False \<Rightarrow> Inr ()))"

text \<open>
  The \<open>while True\<close> loop of lines 383 to 404. It has no bound of its own, so the model
  takes fuel, one unit per iteration: \<open>None\<close> is a run that is still polling when the fuel
  is spent.
\<close>

fun wait_for_jobs ::
  "nat \<Rightarrow> env \<Rightarrow> config \<Rightarrow> json \<Rightarrow> int \<Rightarrow> world \<Rightarrow> (exn + (json \<times> json) list) option \<times> world" where
  "wait_for_jobs 0 env cfg build_version start_time w = (None, w)"
| "wait_for_jobs (Suc fuel) env cfg build_version start_time w =
     (case get_job_ids env build_version cfg w of
        (Inl e, w') \<Rightarrow> (Some (Inl e), w')
      | (Inr job_ids, w') \<Rightarrow>
          (case check_statuses cfg job_ids of
             Inl e \<Rightarrow> (Some (Inl e), w')
           | Inr True \<Rightarrow> (Some (Inr job_ids), w')
           | Inr False \<Rightarrow>
               (case check_timeout env cfg start_time w' of
                  Inl e \<Rightarrow> (Some (Inl e), w')
                | Inr u \<Rightarrow>
                    wait_for_jobs fuel env cfg build_version start_time (w' @ [Sleep SLEEP_FOR]))))"

text \<open>\<open>main\<close> returns \<open>None\<close> on every path that does not raise, here \<open>Inr ()\<close>.\<close>

definition main :: "nat \<Rightarrow> env \<Rightarrow> config \<Rightarrow> world \<Rightarrow> (exn + unit) option \<times> world" where
  "main fuel env cfg w =
     (case validate env cfg of
        Inl e \<Rightarrow> (Some (Inl e), w)
      | Inr u \<Rightarrow>
          (case locate_build 3 env cfg JNull w of
             (Inl e, w1) \<Rightarrow> (Some (Inl e), w1)
           | (Inr build_version, w1) \<Rightarrow>
               if \<not> py_truthy build_version then
                 (Some (Inl (HandledError Timed_out_waiting_for_job_to_be_queued)), w1)
               else
                 (case wait_for_jobs fuel env cfg build_version (clock env (length w1)) w1 of
                    (None, w2) \<Rightarrow> (None, w2)
                  | (Some (Inl e), w2) \<Rightarrow> (Some (Inl e), w2)
                  | (Some (Inr job_ids), w2) \<Rightarrow>
                      (case get_artifacts_urls env (map fst job_ids) w2 of
                         (Inl e, w3) \<Rightarrow> (Some (Inl e), w3)
                       | (Inr artifacts, w3) \<Rightarrow> (Some (Inr ()), w3)))))"

section \<open>The format patterns as the specification words them\<close>



definition pull_request_pattern :: "string \<Rightarrow> bool" where
  "pull_request_pattern s = (s \<noteq> [] \<and> list_all (\<lambda>c. c \<in> set digit_chars) s)"

section \<open>Reading the effects of a run\<close>

text \<open>How often the history endpoint was queried.\<close>

definition history_queries :: "config \<Rightarrow> world \<Rightarrow> nat" where
  "history_queries cfg w = length (filter (\<lambda>e. e = Query (history_url cfg)) w)"

section \<open>Concrete runs\<close>

text \<open>
  A configuration, replies of the service and environments on which the theorems below
  are evaluated. The service of \<open>example_server history jobs\<close> answers the history query
  with \<open>history\<close>, the build query with a build whose job list is \<open>jobs\<close>, and lists one
  artifact for job \<open>a\<close> and none for any other job.
\<close>

definition example_config :: config where
  "example_config =
     \<lparr>always_job_dirs = False, commit = ''0123abc'', dir = '''', job_name = '''',
      no_job_dirs = '''', owner = ''o'', pull_request = '''', repo = ''r'', tag = '''',
      timeout = '''', verbose = False\<rparr>"

definition ok_response :: "json \<Rightarrow> http_outcome" where
  "ok_response body =
     Response \<lparr>resp_ok = True, status_code = 200, resp_text = '''', resp_json = Some body\<rparr>"

definition example_job :: "string \<Rightarrow> string \<Rightarrow> json" where
  "example_job i s = JObj [(''jobId'', JStr i), (''name'', JStr i), (''status'', JStr s)]"

definition branch_build :: json where
  "branch_build = JObj [(''commitId'', JStr ''0123abc''), (''version'', JStr ''1.0.1'')]"

definition tag_build :: json where
  "tag_build =
     JObj [(''commitId'', JStr ''0123abc''), (''tag'', JStr ''v1''), (''version'', JStr ''1.0.2'')]"

definition example_history :: json where
  "example_history = JObj [(''builds'', JArr [branch_build])]"

definition empty_history :: json where
  "empty_history = JObj [(''builds'', JArr [])]"

definition example_server :: "json \<Rightarrow> json \<Rightarrow> nat \<Rightarrow> string \<Rightarrow> http_outcome" where
  "example_server history jobs n e =
     (if e = ''/projects/o/r/history?recordsNumber=10'' then ok_response history
      else if e = ''/projects/o/r/build/1.0.1'' then
        ok_response (JObj [(''build'', JObj [(''jobs'', jobs)])])
      else if e = ''/buildjobs/a/artifacts'' then
        ok_response (JArr [JObj [(''fileName'', JStr ''.coverage'')]])
      else ok_response (JArr []))"

definition example_env :: "interpreter \<Rightarrow> json \<Rightarrow> json \<Rightarrow> env" where
  "example_env py history jobs =
     \<lparr>interpreter = py, server = example_server history jobs, clock = (\<lambda>k. 100 * int k),
      isdir = (\<lambda>p. True), str_of = (\<lambda>v. ''?'')\<rparr>"

definition tagged_config :: config where
  "tagged_config = example_config\<lparr>tag := ''v1''\<rparr>"

definition other_build :: json where
  "other_build = JObj [(''commitId'', JStr ''fffffff''), (''version'', JStr ''1.0.0'')]"

text \<open>
  \<open>jobs_env py jobs\<close>: the build found in the history has the jobs \<open>jobs\<close>, each an
  (id, status) pair.
\<close>

definition jobs_env :: "interpreter \<Rightarrow> (string \<times> string) list \<Rightarrow> env" where
  "jobs_env py jobs =
     example_env py example_history (JArr (map (\<lambda>j. example_job (fst j) (snd j)) jobs))"

definition timeout_config :: config where
  "timeout_config = example_config\<lparr>timeout := ''1''\<rparr>"

text \<open>A reply that is not ok and whose body is not JSON, and a service that only gives it.\<close>

definition bad_gateway :: http_outcome where
  "bad_gateway =
     Response \<lparr>resp_ok = False, status_code = 502, resp_text = ''<html>Bad Gateway</html>'',
       resp_json = None\<rparr>"

definition gateway_env :: env where
  "gateway_env =
     \<lparr>interpreter = Python3, server = (\<lambda>n e. bad_gateway), clock = (\<lambda>k. 100 * int k),
      isdir = (\<lambda>p. True), str_of = (\<lambda>v. ''?'')\<rparr>"

text \<open>A reply that reports an error with a message, and an ok reply that does not decode.\<close>

definition not_found_reply :: response where
  "not_found_reply =
     \<lparr>resp_ok = False, status_code = 404, resp_text = ''Project not found'',
      resp_json = Some (JObj [(''message'', JStr ''Project not found'')])\<rparr>"

definition garbled_reply :: response where
  "garbled_reply = \<lparr>resp_ok = True, status_code = 200, resp_text = ''<html>'', resp_json = None\<rparr>"

text \<open>A service whose history has no build, and configurations for \<open>validate\<close>.\<close>

definition quiet_env :: env where
  "quiet_env = example_env Python3 empty_history (JArr [])"

definition bare_config :: config where
  "bare_config = example_config\<lparr>commit := ''''\<rparr>"





section \<open>The build locator\<close>

text \<open>
  C1, as the code has it. The builds are scanned in the order of the reply, and the first
  build that passes any of the three tests is the one whose version is returned: when no
  build before \<open>b\<close> passes a test and \<open>b\<close> passes one (of whatever kind), the result is
  \<open>b\<close>'s version, whatever follows \<open>b\<close>. The order tag, pull request, commit is the order
  of the tests on one build; it does not rank one build over another.
\<close>

theorem find_version_first_match:
  assumes "\<forall>b \<in> set pre. build_test cfg b = Inr None"
    and "build_test cfg b = Inr (Some k)"
  shows "find_version cfg (pre @ b # post) = py_getitem b ''version''"
  using assms by (induction pre) simp_all

theorem find_version_first_match_witness:
  "build_test tagged_config other_build = Inr None \<and>
   build_test tagged_config branch_build = Inr (Some Branch_build) \<and>
   build_test tagged_config tag_build = Inr (Some Tag_build) \<and>
   find_version tagged_config ([other_build] @ branch_build # [tag_build]) = Inr (JStr ''1.0.1'')"
proof -
  have none: "\<forall>b \<in> set [other_build]. build_test tagged_config b = Inr None"
    by code_simp
  have branch: "build_test tagged_config branch_build = Inr (Some Branch_build)"
    by code_simp
  have tagm: "build_test tagged_config tag_build = Inr (Some Tag_build)"
    by code_simp
  have v: "py_getitem branch_build ''version'' = Inr (JStr ''1.0.1'')"
    by code_simp
  from find_version_first_match [OF none branch, of "[tag_build]"] v none branch tagm
  show ?thesis by simp
qed

text \<open>
  C1 as the spec states it fails: the identity carries tag \<open>v1\<close> and commit \<open>0123abc\<close>,
  the first build of the history has that commit and no tag, the second has the tag (and
  version \<open>1.0.2\<close>). The version returned is the first build's, \<open>1.0.1\<close>.
\<close>

theorem tag_build_not_preferred:
  "py_getitem branch_build ''commitId'' = Inr (JStr (commit tagged_config)) \<and>
   py_get tag_build ''tag'' = Inr (JStr (tag tagged_config)) \<and>
   py_getitem tag_build ''version'' = Inr (JStr ''1.0.2'') \<and>
   find_version tagged_config [branch_build, tag_build] = Inr (JStr ''1.0.1'')"
  by code_simp

section \<open>The API client\<close>

text \<open>
  The two paths of \<open>query_api\<close> that report a failure as the source's docstring says: a
  reply that is not ok and carries a truthy \<open>message\<close> is logged with that message, and an
  ok reply whose body does not decode is logged as a parse failure.
\<close>

lemma http_error_carries_message:
  assumes "\<not> resp_ok r" and "resp_json r = Some (JObj kvs)"
    and "map_of kvs ''message'' = Some x" and "py_truthy x"
  shows "query_api_outcome (Response r) = Inl (HandledError (HTTP_error (status_code r) x))"
  using assms by (simp add: query_api_outcome_def)

lemma parse_error_on_ok_response:
  assumes "resp_ok r" and "resp_json r = None"
  shows "query_api_outcome (Response r) = Inl (HandledError (Failed_to_parse_JSON (resp_text r)))"
  using assms by (simp add: query_api_outcome_def)

text \<open>
  The third path: \<open>response.json()\<close> of line 209 is outside the \<open>try\<close> of line 216, so a
  reply that is not ok and does not decode raises \<open>ValueError\<close>.
\<close>

lemma not_ok_unparsable_raises_ValueError:
  assumes "\<not> resp_ok r" and "resp_json r = None"
  shows "query_api_outcome (Response r) = Inl ValueError"
  using assms by (simp add: query_api_outcome_def)

lemma http_error_carries_message_witness:
  "query_api_outcome (Response not_found_reply) =
     Inl (HandledError (HTTP_error 404 (JStr ''Project not found'')))"
proof -
  have a: "\<not> resp_ok not_found_reply"
    and b: "resp_json not_found_reply = Some (JObj [(''message'', JStr ''Project not found'')])"
    and c: "map_of [(''message'', JStr ''Project not found'')] ''message'' = Some (JStr ''Project not found'')"
    and d: "py_truthy (JStr ''Project not found'')"
    and s: "status_code not_found_reply = 404"
    by (simp_all add: not_found_reply_def)
  from http_error_carries_message [OF a b c d] s show ?thesis by simp
qed

lemma parse_error_on_ok_response_witness:
  "query_api_outcome (Response garbled_reply) = Inl (HandledError (Failed_to_parse_JSON ''<html>''))"
proof -
  have a: "resp_ok garbled_reply" and b: "resp_json garbled_reply = None"
    and t: "resp_text garbled_reply = ''<html>''"
    by (simp_all add: garbled_reply_def)
  from parse_error_on_ok_response [OF a b] t show ?thesis by simp
qed

text \<open>
  C4 at its failing input: a 502 reply with an HTML body. \<open>query_api\<close> raises
  \<open>ValueError\<close>, not \<open>HandledError\<close>, and \<open>main\<close> passes it on after its first query.
\<close>

theorem bad_gateway_raises_ValueError:
  "query_api_outcome bad_gateway = Inl ValueError \<and>
   query_api gateway_env ''/projects/o/r/history?recordsNumber=10'' [] =
     (Inl ValueError, [Query ''/projects/o/r/history?recordsNumber=10'']) \<and>
   main 1 gateway_env example_config [] =
     (Some (Inl ValueError), [Query ''/projects/o/r/history?recordsNumber=10''])"
  by code_simp

section \<open>The job poller\<close>

lemma query_api_world: "snd (query_api env e w) = w @ [Query e]"
  by (simp add: query_api_def)

lemma get_job_ids_world:
  "snd (get_job_ids env build_version cfg w) = w @ [Query (build_url env cfg build_version)]"
  by (simp add: get_job_ids_def query_api_def split: sum.splits)

lemma get_build_version_world:
  "snd (get_build_version env cfg w) = w @ [Query (history_url cfg)]"
  by (simp add: get_build_version_def query_api_def split: sum.splits)

lemma check_statuses_failed:
  assumes "job_ids = pre @ (j, JStr ''failed'') # post"
    and "\<forall>i \<in> set pre. snd i \<noteq> JStr ''failed''"
    and "list_all hashable (map snd job_ids)"
  shows "check_statuses cfg job_ids =
    Inl (HandledError (AppVeyor_job_failed (owner cfg) (repo cfg) j))"
proof -
  have "filter (\<lambda>i. snd i = JStr ''failed'') pre = []"
    using assms(2) by (simp add: filter_empty_conv)
  then have f: "filter (\<lambda>i. snd i = JStr ''failed'') job_ids
      = (j, JStr ''failed'') # filter (\<lambda>i. snd i = JStr ''failed'') post"
    using assms(1) by simp
  have m: "JStr ''failed'' \<in> set (map snd job_ids)"
    using assms(1) by simp
  show ?thesis
    unfolding check_statuses_def Let_def using assms(3) m f by simp
qed

lemma check_statuses_success:
  assumes "job_ids \<noteq> []" and "\<forall>i \<in> set job_ids. snd i = JStr ''success''"
  shows "check_statuses cfg job_ids = Inr True"
proof -
  have s: "set (map snd job_ids) = {JStr ''success''}"
    using assms by (cases job_ids) auto
  have h: "list_all hashable (map snd job_ids)"
    using assms(2) by (simp add: list_all_iff)
  show ?thesis
    unfolding check_statuses_def Let_def using s h by simp
qed

text \<open>
  C5. When the listing that \<open>get_job_ids\<close> returns has a job with status \<open>failed\<close>, the
  iteration ends the loop with the \<open>HandledError\<close> logged as "AppVeyor job failed",
  carrying the id \<open>j\<close> of the first such job, whatever the statuses of the other jobs; the
  only effect of the iteration is the build query, with no sleep and no further poll. The
  statuses are members of a Python set, so they are hashable values, as every str is.
\<close>

theorem failed_job_fails_at_once:
  assumes "fst (get_job_ids env build_version cfg w) = Inr job_ids"
    and "job_ids = pre @ (j, JStr ''failed'') # post"
    and "\<forall>i \<in> set pre. snd i \<noteq> JStr ''failed''"
    and "list_all hashable (map snd job_ids)"
  shows "wait_for_jobs (Suc fuel) env cfg build_version start_time w =
    (Some (Inl (HandledError (AppVeyor_job_failed (owner cfg) (repo cfg) j))),
     w @ [Query (build_url env cfg build_version)])"
proof -
  have g: "get_job_ids env build_version cfg w =
      (Inr job_ids, w @ [Query (build_url env cfg build_version)])"
    using assms(1) get_job_ids_world [of env build_version cfg w] by (simp add: prod_eq_iff)
  show ?thesis
    using g check_statuses_failed [OF assms(2,3,4), of cfg] by simp
qed

theorem failed_job_fails_at_once_witness:
  "wait_for_jobs (Suc 4) (jobs_env Python3 [(''a'', ''failed''), (''b'', ''running'')])
     example_config (JStr ''1.0.1'') 0 [] =
   (Some (Inl (HandledError (AppVeyor_job_failed ''o'' ''r'' (JStr ''a'')))),
    [Query ''/projects/o/r/build/1.0.1''])"
proof -
  let ?env = "jobs_env Python3 [(''a'', ''failed''), (''b'', ''running'')]"
  let ?jobs = "[(JStr ''a'', JStr ''failed''), (JStr ''b'', JStr ''running'')]"
  have g: "fst (get_job_ids ?env (JStr ''1.0.1'') example_config []) = Inr ?jobs"
    by code_simp
  have d: "?jobs = [] @ (JStr ''a'', JStr ''failed'') # [(JStr ''b'', JStr ''running'')]"
    by simp
  have n: "\<forall>i \<in> set ([] :: (json \<times> json) list). snd i \<noteq> JStr ''failed''"
    by simp
  have h: "list_all hashable (map snd ?jobs)"
    by simp
  have o: "owner example_config = ''o''" "repo example_config = ''r''"
    by (simp_all add: example_config_def)
  have u: "build_url ?env example_config (JStr ''1.0.1'') = ''/projects/o/r/build/1.0.1''"
    by code_simp
  from failed_job_fails_at_once [OF g d n h, of 4 0] o u
  show ?thesis by simp
qed

text \<open>
  C6, as the code has it. The test of line 391 is \<open>statuses == {'success'}\<close>, which needs
  a job: when the listing is not empty and every job in it has status \<open>success\<close>, the
  iteration leaves the loop with the whole listing, after the build query alone.
\<close>

theorem all_success_returns_jobs:
  assumes "fst (get_job_ids env build_version cfg w) = Inr job_ids"
    and "job_ids \<noteq> []"
    and "\<forall>i \<in> set job_ids. snd i = JStr ''success''"
  shows "wait_for_jobs (Suc fuel) env cfg build_version start_time w =
    (Some (Inr job_ids), w @ [Query (build_url env cfg build_version)])"
proof -
  have g: "get_job_ids env build_version cfg w =
      (Inr job_ids, w @ [Query (build_url env cfg build_version)])"
    using assms(1) get_job_ids_world [of env build_version cfg w] by (simp add: prod_eq_iff)
  show ?thesis
    using g check_statuses_success [OF assms(2,3), of cfg] by simp
qed

theorem all_success_returns_jobs_witness:
  "wait_for_jobs (Suc 0) (jobs_env Python3 [(''a'', ''success''), (''b'', ''success'')])
     example_config (JStr ''1.0.1'') 0 [] =
   (Some (Inr [(JStr ''a'', JStr ''success''), (JStr ''b'', JStr ''success'')]),
    [Query ''/projects/o/r/build/1.0.1''])"
proof -
  let ?env = "jobs_env Python3 [(''a'', ''success''), (''b'', ''success'')]"
  let ?jobs = "[(JStr ''a'', JStr ''success''), (JStr ''b'', JStr ''success'')]"
  have g: "fst (get_job_ids ?env (JStr ''1.0.1'') example_config []) = Inr ?jobs"
    by code_simp
  have ne: "?jobs \<noteq> []"
    by simp
  have a: "\<forall>i \<in> set ?jobs. snd i = JStr ''success''"
    by simp
  have u: "build_url ?env example_config (JStr ''1.0.1'') = ''/projects/o/r/build/1.0.1''"
    by code_simp
  from all_success_returns_jobs [OF g ne a, of 0 0] u
  show ?thesis by simp
qed

text \<open>
  C6 as the spec states it fails on the empty listing, in which every job (there is none)
  has status \<open>success\<close>: the set of statuses is empty, not \<open>{'success'}\<close>, and the run
  ends in the last branch of the chain.
\<close>

theorem no_jobs_is_not_success:
  "fst (get_job_ids (jobs_env Python3 []) (JStr ''1.0.1'') example_config []) = Inr [] \<and>
   wait_for_jobs (Suc 0) (jobs_env Python3 []) example_config (JStr ''1.0.1'') 0 [] =
     (Some (Inl TypeError), [Query ''/projects/o/r/build/1.0.1''])"
  by code_simp

text \<open>
  The last branch of the chain, for any listing: with no \<open>failed\<close>, not all \<open>success\<close>,
  no \<open>running\<close> and no \<open>queued\<close>, the outcome is \<open>TypeError\<close>.
\<close>

lemma unknown_status_TypeError:
  assumes "list_all hashable (map snd job_ids)"
    and "JStr ''failed'' \<notin> snd ` set job_ids"
    and "snd ` set job_ids \<noteq> {JStr ''success''}"
    and "JStr ''running'' \<notin> snd ` set job_ids"
    and "JStr ''queued'' \<notin> snd ` set job_ids"
  shows "check_statuses cfg job_ids = Inl TypeError"
  using assms by (simp add: check_statuses_def Let_def)

lemma unknown_status_TypeError_witness:
  "check_statuses example_config [(JStr ''a'', JStr ''success''), (JStr ''b'', JStr ''cancelled'')]
     = Inl TypeError"
proof -
  let ?jobs = "[(JStr ''a'', JStr ''success''), (JStr ''b'', JStr ''cancelled'')]"
  have "list_all hashable (map snd ?jobs)"
    and "JStr ''failed'' \<notin> snd ` set ?jobs"
    and "snd ` set ?jobs \<noteq> {JStr ''success''}"
    and "JStr ''running'' \<notin> snd ` set ?jobs"
    and "JStr ''queued'' \<notin> snd ` set ?jobs"
    by auto
  then show ?thesis by (rule unknown_status_TypeError)
qed

text \<open>
  C3 at its failing input, the listing \<open>[("a", "weird")]\<close>: the poller raises
  \<open>TypeError\<close> under either interpreter, not the \<open>HandledError\<close> of line 400.
\<close>

theorem unknown_status_raises_TypeError:
  "fst (get_job_ids (jobs_env Python3 [(''a'', ''weird'')]) (JStr ''1.0.1'') example_config []) =
     Inr [(JStr ''a'', JStr ''weird'')] \<and>
   wait_for_jobs (Suc 0) (jobs_env Python3 [(''a'', ''weird'')]) example_config
     (JStr ''1.0.1'') 0 [] =
     (Some (Inl TypeError), [Query ''/projects/o/r/build/1.0.1'']) \<and>
   wait_for_jobs (Suc 0) (jobs_env Python2 [(''a'', ''weird'')]) example_config
     (JStr ''1.0.1'') 0 [] =
     (Some (Inl TypeError), [Query ''/projects/o/r/build/1.0.1''])"
  by code_simp

subsection \<open>The timeout test\<close>

text \<open>
  No run of the polling loop ends with the \<open>HandledError\<close> logged as "Timed out waiting
  for jobs to finish": the comparison of line 401 never answers \<open>True\<close>.
\<close>

lemma py_getitem_not_timeout:
  "py_getitem v k \<noteq> Inl (HandledError Timed_out_waiting_for_jobs_to_finish)"
  by (cases v) (simp_all split: option.splits)

lemma py_get_not_timeout:
  "py_get v k \<noteq> Inl (HandledError Timed_out_waiting_for_jobs_to_finish)"
  by (cases v) (simp_all split: option.splits)

lemma py_contains_not_timeout:
  "py_contains k v \<noteq> Inl (HandledError Timed_out_waiting_for_jobs_to_finish)"
  by (cases v) simp_all

lemma py_iter_not_timeout:
  "py_iter v \<noteq> Inl (HandledError Timed_out_waiting_for_jobs_to_finish)"
  by (cases v) simp_all

lemma query_api_outcome_not_timeout:
  "query_api_outcome out \<noteq> Inl (HandledError Timed_out_waiting_for_jobs_to_finish)"
  using py_get_not_timeout
  by (auto simp: query_api_outcome_def split: http_outcome.splits option.splits sum.splits)

lemma job_pair_not_timeout:
  "job_pair job \<noteq> Inl (HandledError Timed_out_waiting_for_jobs_to_finish)"
  using py_getitem_not_timeout by (auto simp: job_pair_def split: sum.splits)

lemma collect_jobs_not_timeout:
  "collect_jobs cfg jobs acc \<noteq> Inl (HandledError Timed_out_waiting_for_jobs_to_finish)"
proof (induction jobs arbitrary: acc)
  case Nil
  show ?case by simp
next
  case (Cons job jobs)
  show ?case
    using Cons.IH py_getitem_not_timeout [of job] job_pair_not_timeout [of job]
    by (auto split: sum.splits)
qed

lemma jobs_of_build_not_timeout:
  "jobs_of_build cfg json_data \<noteq> Inl (HandledError Timed_out_waiting_for_jobs_to_finish)"
  using py_contains_not_timeout py_getitem_not_timeout py_iter_not_timeout
    collect_jobs_not_timeout
  by (auto simp: jobs_of_build_def split: sum.splits bool.splits)

lemma get_job_ids_not_timeout:
  "fst (get_job_ids env build_version cfg w) \<noteq>
     Inl (HandledError Timed_out_waiting_for_jobs_to_finish)"
  using query_api_outcome_not_timeout jobs_of_build_not_timeout
  by (auto simp: get_job_ids_def query_api_def split: sum.splits)

lemma check_statuses_not_timeout:
  "check_statuses cfg job_ids \<noteq> Inl (HandledError Timed_out_waiting_for_jobs_to_finish)"
  by (auto simp: check_statuses_def Let_def split: list.splits)

lemma check_timeout_not_timeout:
  "check_timeout env cfg start_time w \<noteq>
     Inl (HandledError Timed_out_waiting_for_jobs_to_finish)"
  by (cases "interpreter env") (auto simp: check_timeout_def py_ge_float_str_def)

lemma polling_timeout_unreachable:
  "fst (wait_for_jobs fuel env cfg build_version start_time w) \<noteq>
     Some (Inl (HandledError Timed_out_waiting_for_jobs_to_finish))"
proof (induction fuel arbitrary: w)
  case 0
  show ?case by simp
next
  case (Suc fuel)
  show ?case
    using Suc.IH get_job_ids_not_timeout [of env build_version cfg w]
      check_statuses_not_timeout [of cfg] check_timeout_not_timeout [of env cfg start_time]
    by (auto split: prod.splits sum.splits bool.splits)
qed

text \<open>
  C2 at its failing input: one running job, a timeout of \<open>1\<close>, and a clock on which 100
  seconds pass between the start of the loop and the first timeout test. The
  configuration passes \<open>validate\<close>. Under Python 3 the run ends with \<open>TypeError\<close> at the
  first test; under Python 2 it sleeps and polls again for as long as it is run.
\<close>

theorem timeout_check_never_times_out:
  "validate (jobs_env Python3 [(''a'', ''running'')]) timeout_config = Inr () \<and>
   clock (jobs_env Python3 [(''a'', ''running'')]) 2
     - clock (jobs_env Python3 [(''a'', ''running'')]) 1 = 100 \<and>
   main 3 (jobs_env Python3 [(''a'', ''running'')]) timeout_config [] =
     (Some (Inl TypeError),
      [Query ''/projects/o/r/history?recordsNumber=10'', Query ''/projects/o/r/build/1.0.1'']) \<and>
   main 3 (jobs_env Python2 [(''a'', ''running'')]) timeout_config [] =
     (None,
      [Query ''/projects/o/r/history?recordsNumber=10'',
       Query ''/projects/o/r/build/1.0.1'', Sleep 5,
       Query ''/projects/o/r/build/1.0.1'', Sleep 5,
       Query ''/projects/o/r/build/1.0.1'', Sleep 5])"
  by code_simp

section \<open>The bounded retry of build location\<close>

lemma get_build_version_pair:
  "get_build_version env cfg w = (fst (get_build_version env cfg w), w @ [Query (history_url cfg)])"
  using get_build_version_world [of env cfg w] by (simp add: prod_eq_iff)

lemma get_job_ids_pair:
  "get_job_ids env build_version cfg w =
     (fst (get_job_ids env build_version cfg w), w @ [Query (build_url env cfg build_version)])"
  using get_job_ids_world [of env build_version cfg w] by (simp add: prod_eq_iff)

lemma query_api_pair:
  "query_api env e w = (fst (query_api env e w), w @ [Query e])"
  by (simp add: query_api_def)

lemma build_url_not_history: "build_url env cfg v \<noteq> history_url cfg"
  by (simp add: build_url_def history_url_def)

lemma artifacts_url_not_history: "artifacts_url env job \<noteq> history_url cfg"
  by (simp add: artifacts_url_def history_url_def)

lemma history_queries_append:
  "history_queries cfg (w @ t) = history_queries cfg w + history_queries cfg t"
  by (simp add: history_queries_def)

lemma locate_build_history_queries:
  "history_queries cfg (snd (locate_build n env cfg v w)) \<le> history_queries cfg w + n"
proof (induction n arbitrary: v w)
  case 0
  show ?case by simp
next
  case (Suc n)
  obtain r where g: "get_build_version env cfg w = (r, w @ [Query (history_url cfg)])"
    using get_build_version_pair by blast
  show ?case
  proof (cases r)
    case (Inl e)
    with g show ?thesis by (simp add: history_queries_def)
  next
    case (Inr x)
    show ?thesis
    proof (cases "py_truthy x")
      case True
      with g Inr show ?thesis by (simp add: history_queries_def)
    next
      case False
      have "history_queries cfg (snd (locate_build n env cfg x (w @ [Query (history_url cfg)] @ [Sleep SLEEP_FOR])))
          \<le> history_queries cfg (w @ [Query (history_url cfg)] @ [Sleep SLEEP_FOR]) + n"
        by (rule Suc.IH)
      with g Inr False show ?thesis by (simp add: history_queries_def)
    qed
  qed
qed

lemma history_queries_other:
  "e \<noteq> history_url cfg \<Longrightarrow> history_queries cfg (w @ [Query e]) = history_queries cfg w"
  by (simp add: history_queries_def)

lemma history_queries_sleep:
  "history_queries cfg (w @ [Sleep n]) = history_queries cfg w"
  by (simp add: history_queries_def)

lemma wait_for_jobs_history_queries:
  "history_queries cfg (snd (wait_for_jobs fuel env cfg v st w)) = history_queries cfg w"
proof (induction fuel arbitrary: w)
  case 0
  show ?case by simp
next
  case (Suc fuel)
  obtain r where g: "get_job_ids env v cfg w = (r, w @ [Query (build_url env cfg v)])"
    using get_job_ids_pair by blast
  have q: "history_queries cfg (w @ [Query (build_url env cfg v)]) = history_queries cfg w"
    by (rule history_queries_other [OF build_url_not_history])
  have s: "history_queries cfg ((w @ [Query (build_url env cfg v)]) @ [Sleep SLEEP_FOR])
      = history_queries cfg w"
    using q by (simp only: history_queries_sleep)
  show ?case
    using g q s Suc.IH [of "(w @ [Query (build_url env cfg v)]) @ [Sleep SLEEP_FOR]"]
    by (simp split: sum.splits bool.splits)
qed

lemma artifacts_loop_history_queries:
  "history_queries cfg (snd (artifacts_loop env jobs acc w)) = history_queries cfg w"
proof (induction jobs arbitrary: acc w)
  case Nil
  show ?case by simp
next
  case (Cons job jobs)
  obtain r where g: "query_api env (artifacts_url env job) w = (r, w @ [Query (artifacts_url env job)])"
    using query_api_pair by blast
  have q: "history_queries cfg (w @ [Query (artifacts_url env job)]) = history_queries cfg w"
    by (rule history_queries_other [OF artifacts_url_not_history])
  show ?case
    using g q Cons.IH [of _ "w @ [Query (artifacts_url env job)]"]
    by (simp split: sum.splits)
qed

lemma main_history_queries:
  "history_queries cfg (snd (main fuel env cfg w)) \<le> history_queries cfg w + 3"
proof -
  have l: "\<And>r w1. locate_build 3 env cfg JNull w = (r, w1)
      \<Longrightarrow> history_queries cfg w1 \<le> history_queries cfg w + 3"
    using locate_build_history_queries [of cfg 3 env JNull w] by simp
  have p: "\<And>v st w1 r w2. wait_for_jobs fuel env cfg v st w1 = (r, w2)
      \<Longrightarrow> history_queries cfg w2 = history_queries cfg w1"
    using wait_for_jobs_history_queries [of cfg fuel env] by (metis snd_conv)
  have a: "\<And>jobs w2 r w3. artifacts_loop env jobs [] w2 = (r, w3)
      \<Longrightarrow> history_queries cfg w3 = history_queries cfg w2"
    using artifacts_loop_history_queries [of cfg env] by (metis snd_conv)
  show ?thesis
    unfolding main_def get_artifacts_urls_def
    by (auto split: sum.splits prod.splits option.splits dest!: l p a)
qed

lemma locate_build_no_match:
  assumes "fst (get_build_version env cfg w) = Inr v1" and "\<not> py_truthy v1"
    and "fst (get_build_version env cfg (w @ [Query (history_url cfg), Sleep SLEEP_FOR])) = Inr v2"
    and "\<not> py_truthy v2"
    and "fst (get_build_version env cfg
           (w @ [Query (history_url cfg), Sleep SLEEP_FOR, Query (history_url cfg), Sleep SLEEP_FOR]))
         = Inr v3"
    and "\<not> py_truthy v3"
  shows "locate_build 3 env cfg JNull w =
    (Inr v3,
     w @ [Query (history_url cfg), Sleep SLEEP_FOR, Query (history_url cfg), Sleep SLEEP_FOR,
          Query (history_url cfg), Sleep SLEEP_FOR])"
proof -
  let ?h = "Query (history_url cfg)"
  let ?s = "Sleep SLEEP_FOR"
  have g1: "get_build_version env cfg w = (Inr v1, w @ [?h])"
    using assms(1) get_build_version_pair [of env cfg w] by simp
  have g2: "get_build_version env cfg (w @ [?h, ?s]) = (Inr v2, w @ [?h, ?s, ?h])"
    using assms(3) get_build_version_pair [of env cfg "w @ [?h, ?s]"] by simp
  have g3: "get_build_version env cfg (w @ [?h, ?s, ?h, ?s]) = (Inr v3, w @ [?h, ?s, ?h, ?s, ?h])"
    using assms(5) get_build_version_pair [of env cfg "w @ [?h, ?s, ?h, ?s]"] by simp
  have three: "(3::nat) = Suc (Suc (Suc 0))"
    by simp
  show ?thesis
    unfolding three using g1 g2 g3 assms(2,4,6) by simp
qed

text \<open>
  C7. In every run the history endpoint is queried at most three times. When the three
  attempts each return without a match (\<open>None\<close>, or a version that is not truthy), the
  run sleeps \<open>SLEEP_FOR\<close> = 5 seconds after each of them, issues no fourth query, and
  fails with the \<open>HandledError\<close> logged as "Timed out waiting for job to be queued or
  build not found": the source's timeout failure, raised by \<open>main\<close> itself, not by the
  locator, which only returns \<open>None\<close>.
\<close>

theorem build_location_three_attempts:
  "history_queries cfg (snd (main fuel env cfg w)) \<le> history_queries cfg w + 3 \<and>
   (validate env cfg = Inr () \<and>
    fst (get_build_version env cfg w) = Inr v1 \<and> \<not> py_truthy v1 \<and>
    fst (get_build_version env cfg (w @ [Query (history_url cfg), Sleep SLEEP_FOR])) = Inr v2 \<and>
    \<not> py_truthy v2 \<and>
    fst (get_build_version env cfg
           (w @ [Query (history_url cfg), Sleep SLEEP_FOR, Query (history_url cfg), Sleep SLEEP_FOR]))
      = Inr v3 \<and>
    \<not> py_truthy v3 \<longrightarrow>
    main fuel env cfg w =
      (Some (Inl (HandledError Timed_out_waiting_for_job_to_be_queued)),
       w @ [Query (history_url cfg), Sleep 5, Query (history_url cfg), Sleep 5,
            Query (history_url cfg), Sleep 5]))"
proof (intro conjI impI)
  show "history_queries cfg (snd (main fuel env cfg w)) \<le> history_queries cfg w + 3"
    by (rule main_history_queries)
next
  assume a: "validate env cfg = Inr () \<and>
    fst (get_build_version env cfg w) = Inr v1 \<and> \<not> py_truthy v1 \<and>
    fst (get_build_version env cfg (w @ [Query (history_url cfg), Sleep SLEEP_FOR])) = Inr v2 \<and>
    \<not> py_truthy v2 \<and>
    fst (get_build_version env cfg
           (w @ [Query (history_url cfg), Sleep SLEEP_FOR, Query (history_url cfg), Sleep SLEEP_FOR]))
      = Inr v3 \<and>
    \<not> py_truthy v3"
  then have l: "locate_build 3 env cfg JNull w =
    (Inr v3,
     w @ [Query (history_url cfg), Sleep SLEEP_FOR, Query (history_url cfg), Sleep SLEEP_FOR,
          Query (history_url cfg), Sleep SLEEP_FOR])"
    using locate_build_no_match [of env cfg w v1 v2 v3] by blast
  show "main fuel env cfg w =
      (Some (Inl (HandledError Timed_out_waiting_for_job_to_be_queued)),
       w @ [Query (history_url cfg), Sleep 5, Query (history_url cfg), Sleep 5,
            Query (history_url cfg), Sleep 5])"
    using a l by (simp add: main_def SLEEP_FOR_def)
qed

theorem build_location_three_attempts_witness:
  "history_queries example_config (snd (main 7 quiet_env example_config [])) = 3 \<and>
   main 7 quiet_env example_config [] =
     (Some (Inl (HandledError Timed_out_waiting_for_job_to_be_queued)),
      [Query ''/projects/o/r/history?recordsNumber=10'', Sleep 5,
       Query ''/projects/o/r/history?recordsNumber=10'', Sleep 5,
       Query ''/projects/o/r/history?recordsNumber=10'', Sleep 5])"
proof -
  let ?h = "Query (history_url example_config)"
  have v: "validate quiet_env example_config = Inr ()"
    by code_simp
  have n1: "fst (get_build_version quiet_env example_config []) = Inr JNull"
    by code_simp
  have n2: "fst (get_build_version quiet_env example_config ([] @ [?h, Sleep SLEEP_FOR])) = Inr JNull"
    by code_simp
  have n3: "fst (get_build_version quiet_env example_config
      ([] @ [?h, Sleep SLEEP_FOR, ?h, Sleep SLEEP_FOR])) = Inr JNull"
    by code_simp
  have u: "history_url example_config = ''/projects/o/r/history?recordsNumber=10''"
    by code_simp
  have m: "main 7 quiet_env example_config [] =
     (Some (Inl (HandledError Timed_out_waiting_for_job_to_be_queued)),
      [] @ [?h, Sleep 5, ?h, Sleep 5, ?h, Sleep 5])"
    using build_location_three_attempts [of example_config 7 quiet_env "[]" JNull JNull JNull]
      v n1 n2 n3 by simp
  have c: "history_queries example_config ([] @ [?h, Sleep 5, ?h, Sleep 5, ?h, Sleep 5]) = 3"
    by (simp add: history_queries_def)
  show ?thesis
    using m c u by simp
qed

section \<open>Validation before any query\<close>











lemma pull_request_pattern_isdigit: "pull_request_pattern s \<Longrightarrow> isdigit py s"
  by (auto simp: pull_request_pattern_def isdigit_def digit_char_def list_all_iff)

lemma isdigit_Python2: "isdigit Python2 s = pull_request_pattern s"
  by (auto simp: pull_request_pattern_def isdigit_def digit_char_def list_all_iff)




section \<open>A run without an identity\<close>

lemma locate_build_extends: "\<exists>t. snd (locate_build n env cfg v w) = w @ t"
proof (induction n arbitrary: v w)
  case 0
  show ?case by simp
next
  case (Suc n)
  obtain r where g: "get_build_version env cfg w = (r, w @ [Query (history_url cfg)])"
    using get_build_version_pair by blast
  show ?case
  proof (cases r)
    case (Inl e)
    with g show ?thesis by simp
  next
    case (Inr x)
    show ?thesis
    proof (cases "py_truthy x")
      case True
      with g Inr show ?thesis by simp
    next
      case False
      obtain t where "snd (locate_build n env cfg x ((w @ [Query (history_url cfg)]) @ [Sleep SLEEP_FOR]))
          = ((w @ [Query (history_url cfg)]) @ [Sleep SLEEP_FOR]) @ t"
        using Suc.IH by blast
      with g Inr False show ?thesis by simp
    qed
  qed
qed

lemma locate_build_starts_with_history:
  "\<exists>t. snd (locate_build (Suc n) env cfg v w) = w @ Query (history_url cfg) # t"
proof -
  obtain r where g: "get_build_version env cfg w = (r, w @ [Query (history_url cfg)])"
    using get_build_version_pair by blast
  show ?thesis
  proof (cases r)
    case (Inl e)
    with g show ?thesis by simp
  next
    case (Inr x)
    show ?thesis
    proof (cases "py_truthy x")
      case True
      with g Inr show ?thesis by simp
    next
      case False
      obtain t where "snd (locate_build n env cfg x ((w @ [Query (history_url cfg)]) @ [Sleep SLEEP_FOR]))
          = ((w @ [Query (history_url cfg)]) @ [Sleep SLEEP_FOR]) @ t"
        using locate_build_extends by blast
      with g Inr False show ?thesis by simp
    qed
  qed
qed

lemma wait_for_jobs_extends: "\<exists>t. snd (wait_for_jobs fuel env cfg v st w) = w @ t"
proof (induction fuel arbitrary: w)
  case 0
  show ?case by simp
next
  case (Suc fuel)
  obtain r where g: "get_job_ids env v cfg w = (r, w @ [Query (build_url env cfg v)])"
    using get_job_ids_pair by blast
  obtain t where t: "snd (wait_for_jobs fuel env cfg v st ((w @ [Query (build_url env cfg v)]) @ [Sleep SLEEP_FOR]))
      = ((w @ [Query (build_url env cfg v)]) @ [Sleep SLEEP_FOR]) @ t"
    using Suc.IH by blast
  show ?case
    using g t by (auto split: sum.splits bool.splits)
qed

lemma artifacts_loop_extends: "\<exists>t. snd (artifacts_loop env jobs acc w) = w @ t"
proof (induction jobs arbitrary: acc w)
  case Nil
  show ?case by simp
next
  case (Cons job jobs)
  obtain r where g: "query_api env (artifacts_url env job) w = (r, w @ [Query (artifacts_url env job)])"
    using query_api_pair by blast
  have t: "\<And>a. \<exists>t. snd (artifacts_loop env jobs a (w @ [Query (artifacts_url env job)]))
      = w @ Query (artifacts_url env job) # t"
    using Cons.IH [of _ "w @ [Query (artifacts_url env job)]"] by simp
  show ?case
    using g t by (auto split: sum.splits)
qed

lemma main_starts_with_history:
  assumes "validate env cfg = Inr ()"
  shows "\<exists>t. snd (main fuel env cfg w) = w @ Query (history_url cfg) # t"
proof -
  obtain r t1 where l: "locate_build 3 env cfg JNull w = (r, w @ Query (history_url cfg) # t1)"
    using locate_build_starts_with_history [of 2 env cfg JNull w]
    by (simp add: numeral_3_eq_3 prod_eq_iff) (metis prod.collapse)
  have p: "\<And>v st w1 r w2. wait_for_jobs fuel env cfg v st w1 = (r, w2) \<Longrightarrow> \<exists>t. w2 = w1 @ t"
    using wait_for_jobs_extends [of fuel env cfg] by (metis snd_conv)
  have a: "\<And>jobs w2 r w3. artifacts_loop env jobs [] w2 = (r, w3) \<Longrightarrow> \<exists>t. w3 = w2 @ t"
    using artifacts_loop_extends [of env] by (metis snd_conv)
  show ?thesis
    using assms l unfolding main_def get_artifacts_urls_def
    by (auto split: sum.splits prod.splits option.splits dest!: p a)
qed

text \<open>
  C10. A configuration whose commit, tag and pull request number are all empty, with an
  owner and a repo that \<open>REGEX_GENERAL\<close> accepts and with valid values for the options
  that are not part of the identity, passes \<open>validate\<close>: each identity field is tested
  only when it is not empty. The run then goes on to build location, so the first effect
  of \<open>main\<close> is the history query.
\<close>

theorem identity_less_config_is_valid:
  assumes "commit cfg = []" and "tag cfg = []" and "pull_request cfg = []"
    and "owner cfg \<noteq> []" and "REGEX_GENERAL (owner cfg)"
    and "repo cfg \<noteq> []" and "REGEX_GENERAL (repo cfg)"
    and "\<not> (always_job_dirs cfg \<and> no_job_dirs cfg \<noteq> [])"
    and "dir cfg = [] \<or> isdir env (dir cfg)"
    and "no_job_dirs cfg \<in> set ['''', ''rename'', ''overwrite'', ''skip'']"
    and "timeout cfg = [] \<or> isdigit (interpreter env) (timeout cfg)"
  shows "validate env cfg = Inr () \<and>
    (\<exists>t. snd (main fuel env cfg w) = w @ Query (history_url cfg) # t)"
proof -
  have v: "validate env cfg = Inr ()"
    using assms unfolding validate_def by auto
  show ?thesis
    using v main_starts_with_history [OF v] by simp
qed

theorem identity_less_config_is_valid_witness:
  "validate quiet_env bare_config = Inr () \<and>
   (\<exists>t. snd (main 2 quiet_env bare_config []) = Query ''/projects/o/r/history?recordsNumber=10'' # t)"
proof -
  have h: "commit bare_config = []" "tag bare_config = []" "pull_request bare_config = []"
    "owner bare_config \<noteq> []" "REGEX_GENERAL (owner bare_config)"
    "repo bare_config \<noteq> []" "REGEX_GENERAL (repo bare_config)"
    "\<not> (always_job_dirs bare_config \<and> no_job_dirs bare_config \<noteq> [])"
    "dir bare_config = [] \<or> isdir quiet_env (dir bare_config)"
    "no_job_dirs bare_config \<in> set ['''', ''rename'', ''overwrite'', ''skip'']"
    "timeout bare_config = [] \<or> isdigit (interpreter quiet_env) (timeout bare_config)"
    by code_simp+
  have u: "history_url bare_config = ''/projects/o/r/history?recordsNumber=10''"
    by code_simp
  from identity_less_config_is_valid [OF h, of 2 "[]"] u
  show ?thesis by simp
qed

section \<open>The artifact resolver\<close>

lemma requests_made_query: "requests_made (w @ [Query e]) = Suc (requests_made w)"
  by (simp add: requests_made_def)

lemma artifact_rows_names:
  assumes "list_all2 (\<lambda>a n. py_getitem a ''fileName'' = Inr n) entries ns"
  shows "artifact_rows job entries = Inr (map (Pair job) ns)"
  using assms by (induction entries ns rule: list_all2_induct) simp_all

lemma artifacts_loop_in_order:
  assumes "length replies = length job_ids" and "length names = length job_ids"
    and "\<forall>k < length job_ids.
           query_api_outcome (server env (requests_made w + k) (artifacts_url env (job_ids ! k)))
             = Inr (JArr (replies ! k))"
    and "\<forall>k < length job_ids.
           list_all2 (\<lambda>a n. py_getitem a ''fileName'' = Inr n) (replies ! k) (names ! k)"
  shows "artifacts_loop env job_ids acc w =
    (Inr (acc @ concat (map (\<lambda>(job, ns). map (Pair job) ns) (zip job_ids names))),
     w @ map (\<lambda>job. Query (artifacts_url env job)) job_ids)"
  using assms
proof (induction job_ids arbitrary: replies names acc w)
  case Nil
  then show ?case by simp
next
  case (Cons job jobs)
  obtain r rs where r: "replies = r # rs"
    using Cons.prems(1) by (cases replies) auto
  obtain n ns where n: "names = n # ns"
    using Cons.prems(2) by (cases names) auto
  let ?w = "w @ [Query (artifacts_url env job)]"
  have q: "query_api env (artifacts_url env job) w = (Inr (JArr r), ?w)"
    using Cons.prems(3) r by (auto simp: query_api_def)
  have rows: "artifact_rows job r = Inr (map (Pair job) n)"
    using Cons.prems(4) r n by (intro artifact_rows_names) auto
  have l1: "length rs = length jobs" and l2: "length ns = length jobs"
    using Cons.prems(1,2) r n by simp_all
  have s3: "\<forall>k < length jobs.
      query_api_outcome (server env (requests_made ?w + k) (artifacts_url env (jobs ! k)))
        = Inr (JArr (rs ! k))"
  proof (intro allI impI)
    fix k assume "k < length jobs"
    then have "Suc k < length (job # jobs)" by simp
    with Cons.prems(3) have
      "query_api_outcome (server env (requests_made w + Suc k) (artifacts_url env ((job # jobs) ! Suc k)))
        = Inr (JArr (replies ! Suc k))" by blast
    then show "query_api_outcome (server env (requests_made ?w + k) (artifacts_url env (jobs ! k)))
        = Inr (JArr (rs ! k))"
      using r by (simp add: requests_made_query)
  qed
  have s4: "\<forall>k < length jobs.
      list_all2 (\<lambda>a n. py_getitem a ''fileName'' = Inr n) (rs ! k) (ns ! k)"
  proof (intro allI impI)
    fix k assume "k < length jobs"
    then have "Suc k < length (job # jobs)" by simp
    with Cons.prems(4) have
      "list_all2 (\<lambda>a n. py_getitem a ''fileName'' = Inr n) (replies ! Suc k) (names ! Suc k)"
      by blast
    then show "list_all2 (\<lambda>a n. py_getitem a ''fileName'' = Inr n) (rs ! k) (ns ! k)"
      using r n by simp
  qed
  have ih: "artifacts_loop env jobs (acc @ map (Pair job) n) ?w =
    (Inr ((acc @ map (Pair job) n) @ concat (map (\<lambda>(job, ns). map (Pair job) ns) (zip jobs ns))),
     ?w @ map (\<lambda>job. Query (artifacts_url env job)) jobs)"
    by (rule Cons.IH [OF l1 l2 s3 s4])
  show ?case
    using q rows ih r n by simp
qed

text \<open>
  C8. Let the service answer the artifact query of the \<open>k\<close>-th job with the list
  \<open>replies ! k\<close>, whose entries have the file names \<open>names ! k\<close>. Then
  \<open>get_artifacts_urls\<close> returns, without error, one (job id, file name) pair per entry:
  the jobs in the order given and, within a job, the entries in the order listed. It
  queries each job once, in order. A job with an empty listing adds no pair, and the
  empty list of jobs gives the empty list with no query at all.
\<close>

theorem artifacts_one_tuple_per_entry:
  assumes "length replies = length job_ids" and "length names = length job_ids"
    and "\<forall>k < length job_ids.
           query_api_outcome (server env (requests_made w + k) (artifacts_url env (job_ids ! k)))
             = Inr (JArr (replies ! k))"
    and "\<forall>k < length job_ids.
           list_all2 (\<lambda>a n. py_getitem a ''fileName'' = Inr n) (replies ! k) (names ! k)"
  shows "get_artifacts_urls env job_ids w =
      (Inr (concat (map (\<lambda>(job, ns). map (Pair job) ns) (zip job_ids names))),
       w @ map (\<lambda>job. Query (artifacts_url env job)) job_ids) \<and>
    get_artifacts_urls env [] w = (Inr [], w)"
  using artifacts_loop_in_order [OF assms, of "[]"] by (simp add: get_artifacts_urls_def)

theorem artifacts_one_tuple_per_entry_witness:
  "get_artifacts_urls (jobs_env Python3 []) [JStr ''a'', JStr ''b''] [] =
     (Inr [(JStr ''a'', JStr ''.coverage'')],
      [Query ''/buildjobs/a/artifacts'', Query ''/buildjobs/b/artifacts'']) \<and>
   get_artifacts_urls (jobs_env Python3 []) [] [] = (Inr [], [])"
proof -
  let ?env = "jobs_env Python3 []"
  let ?jobs = "[JStr ''a'', JStr ''b'']"
  let ?replies = "[[JObj [(''fileName'', JStr ''.coverage'')]], []]"
  let ?names = "[[JStr ''.coverage''], []]"
  have l1: "length ?replies = length ?jobs" and l2: "length ?names = length ?jobs"
    by simp_all
  have k: "\<And>k P. (\<forall>k < length ?jobs. P k) = (P 0 \<and> P (Suc 0))"
    by (auto simp: less_Suc_eq)
  have q0: "query_api_outcome (server ?env (requests_made [] + 0) (artifacts_url ?env (?jobs ! 0)))
      = Inr (JArr (?replies ! 0))"
    by code_simp
  have q1: "query_api_outcome (server ?env (requests_made [] + Suc 0) (artifacts_url ?env (?jobs ! Suc 0)))
      = Inr (JArr (?replies ! Suc 0))"
    by code_simp
  have s3: "\<forall>k < length ?jobs.
      query_api_outcome (server ?env (requests_made [] + k) (artifacts_url ?env (?jobs ! k)))
        = Inr (JArr (?replies ! k))"
    unfolding k using q0 q1 by blast
  have s4: "\<forall>k < length ?jobs.
      list_all2 (\<lambda>a n. py_getitem a ''fileName'' = Inr n) (?replies ! k) (?names ! k)"
    unfolding k by simp
  have u: "artifacts_url ?env (JStr ''a'') = ''/buildjobs/a/artifacts''"
    "artifacts_url ?env (JStr ''b'') = ''/buildjobs/b/artifacts''"
    by code_simp+
  from artifacts_one_tuple_per_entry [OF l1 l2 s3 s4] u
  show ?thesis by simp
qed

end
